theory Spec2Isabelle
  imports Main
begin

section \<open>Strings\<close>

text \<open>\<open>starts_with p s\<close>: the string \<open>s\<close> begins with \<open>p\<close> (Python's \<^verbatim>\<open>s.startswith(p)\<close>).\<close>

fun starts_with :: "string \<Rightarrow> string \<Rightarrow> bool" where
  "starts_with [] s = True"
| "starts_with (p # ps) [] = False"
| "starts_with (p # ps) (c # cs) = (p = c \<and> starts_with ps cs)"

section \<open>The launcher script docker/local.sh\<close>

text \<open>
  The script is written in a small fragment of bash: a comment line, blank lines,
  \<^verbatim>\<open>set -e\<close>, one variable assignment and two simple commands whose words are
  literal text or the unquoted expansion \<^verbatim>\<open>${NAME}\<close>. The abstract syntax below covers
  that fragment, and also the positional parameters \<^verbatim>\<open>$0, $1, ...\<close>, which the script
  could have read and does not.
\<close>

datatype word_part = Lit string | Var string | Arg nat

type_synonym word = "word_part list"

datatype command = Set_errexit | Assign string word | Exec "word list"

datatype line = Comment string | Blank | Stmt command

text \<open>The eight lines of the file, in order.\<close>

definition local_sh :: "line list" where
  "local_sh =
    [Comment ''!/usr/bin/env bash'',
     Blank,
     Stmt Set_errexit,
     Blank,
     Stmt (Assign ''CONTAINER_TAG'' [Lit ''htcondor-python-bindings-tutorials'']),
     Blank,
     Stmt (Exec [[Lit ''docker''], [Lit ''build''], [Lit ''-t''], [Var ''CONTAINER_TAG''],
                 [Lit ''--file''], [Lit ''docker/Dockerfile''], [Lit ''.'']]),
     Stmt (Exec [[Lit ''docker''], [Lit ''run''], [Lit ''-it''], [Lit ''--rm''], [Lit ''-p''],
                 [Lit ''8888:8888''], [Var ''CONTAINER_TAG''], [Lit ''jupyter''], [Lit ''lab'']])]"

subsection \<open>Executing the script\<close>

text \<open>
  The state of the shell: its variables (initially the variables of the environment), the
  positional parameters (the script's name, then the arguments of the invocation), the
  \<^verbatim>\<open>errexit\<close> option, the status of the last command, whether the shell has exited, and
  the simple commands executed so far, each as its argument vector.
\<close>

record shell =
  vars :: "(string \<times> string) list"
  params :: "string list"
  errexit :: bool
  status :: nat
  exited :: bool
  actions :: "string list list"

text \<open>
  Expansion of one part of a word. Every character carries a flag: whether it comes from
  an unquoted expansion, and so is subject to field splitting. An unset variable or
  parameter expands to the empty string.
\<close>

fun expand_part :: "shell \<Rightarrow> word_part \<Rightarrow> (char \<times> bool) list" where
  "expand_part st (Lit s) = map (\<lambda>c. (c, False)) s"
| "expand_part st (Var x) =
    map (\<lambda>c. (c, True)) (case map_of (vars st) x of None \<Rightarrow> [] | Some v \<Rightarrow> v)"
| "expand_part st (Arg n) =
    map (\<lambda>c. (c, True)) (if n < length (params st) then params st ! n else [])"

definition expand_word :: "shell \<Rightarrow> word \<Rightarrow> (char \<times> bool) list" where
  "expand_word st w = concat (map (expand_part st) w)"

definition is_ifs :: "char \<Rightarrow> bool" where
  "is_ifs c = (c = CHR '' '' \<or> c = CHR 0x09 \<or> c = CHR 0x0A)"

text \<open>
  Field splitting with the default \<^verbatim>\<open>IFS\<close>: the expanded word is cut at the white space
  that came from an expansion, and empty fields are dropped. Pathname expansion is not
  modelled: no word of the script, and no value it assigns, holds a pattern character.
\<close>

fun split_fields :: "(char \<times> bool) list \<Rightarrow> string \<Rightarrow> string list" where
  "split_fields [] cur = (if cur = [] then [] else [cur])"
| "split_fields ((c, from_expansion) # cs) cur =
    (if from_expansion \<and> is_ifs c
     then (if cur = [] then [] else [cur]) @ split_fields cs []
     else split_fields cs (cur @ [c]))"

definition expand_words :: "shell \<Rightarrow> word list \<Rightarrow> string list" where
  "expand_words st ws = concat (map (\<lambda>w. split_fields (expand_word st w) []) ws)"

text \<open>
  One statement. The outside world is the function \<open>sys\<close>, from the argument vector of a
  command to its exit status (127 where the command is not found on the search path). The
  value of an assignment is not split. Under \<^verbatim>\<open>set -e\<close> the shell exits as soon as a
  command returns a status other than zero.
\<close>

fun exec_command :: "(string list \<Rightarrow> nat) \<Rightarrow> command \<Rightarrow> shell \<Rightarrow> shell" where
  "exec_command sys Set_errexit st = st\<lparr>errexit := True, status := 0\<rparr>"
| "exec_command sys (Assign x w) st =
    st\<lparr>vars := (x, map fst (expand_word st w)) # vars st, status := 0\<rparr>"
| "exec_command sys (Exec ws) st =
    (case expand_words st ws of
       [] \<Rightarrow> st\<lparr>status := 0\<rparr>
     | a # as \<Rightarrow>
         st\<lparr>status := sys (a # as),
            exited := (errexit st \<and> sys (a # as) \<noteq> 0),
            actions := actions st @ [a # as]\<rparr>)"

fun run_lines :: "(string list \<Rightarrow> nat) \<Rightarrow> line list \<Rightarrow> shell \<Rightarrow> shell" where
  "run_lines sys [] st = st"
| "run_lines sys (Comment body # ls) st = (if exited st then st else run_lines sys ls st)"
| "run_lines sys (Blank # ls) st = (if exited st then st else run_lines sys ls st)"
| "run_lines sys (Stmt c # ls) st =
    (if exited st then st else run_lines sys ls (exec_command sys c st))"

text \<open>
  How bash starts. The environment gives the shell more than its variables: bash enables
  the options listed in \<^verbatim>\<open>SHELLOPTS\<close> and \<^verbatim>\<open>BASHOPTS\<close> (under \<^verbatim>\<open>noexec\<close> it reads the
  script and executes nothing), runs the file named by \<^verbatim>\<open>BASH_ENV\<close> before the script, and
  defines a function for every variable whose name starts with \<^verbatim>\<open>BASH_FUNC_\<close> (a
  function named \<^verbatim>\<open>docker\<close> would run in place of the program). What such an environment
  makes of the script depends on text that is not in the repository, so the model covers
  the other environments only, where the shell starts with its default options and no
  function: \<open>run_script\<close> is \<open>None\<close> for an environment that holds one of these names.
\<close>

definition startup_names :: "string list" where
  "startup_names = [''SHELLOPTS'', ''BASHOPTS'', ''BASH_ENV'']"

definition configures_shell :: "string \<times> string \<Rightarrow> bool" where
  "configures_shell entry =
    (List.member startup_names (fst entry) \<or> starts_with ''BASH_FUNC_'' (fst entry))"

definition default_startup :: "(string \<times> string) list \<Rightarrow> bool" where
  "default_startup env = (filter configures_shell env = [])"

definition run_script ::
  "(string list \<Rightarrow> nat) \<Rightarrow> string list \<Rightarrow> (string \<times> string) list \<Rightarrow> line list
    \<Rightarrow> shell option" where
  "run_script sys args env script =
    (if default_startup env
     then Some (run_lines sys script
       \<lparr>vars = env, params = ''docker/local.sh'' # args, errexit = False, status = 0,
        exited = False, actions = []\<rparr>)
     else None)"

text \<open>The two command lines of the script, as the argument vectors they expand to.\<close>

definition docker_build :: "string list" where
  "docker_build =
    [''docker'', ''build'', ''-t'', ''htcondor-python-bindings-tutorials'', ''--file'',
     ''docker/Dockerfile'', ''.'']"

definition docker_run :: "string list" where
  "docker_run =
    [''docker'', ''run'', ''-it'', ''--rm'', ''-p'', ''8888:8888'',
     ''htcondor-python-bindings-tutorials'', ''jupyter'', ''lab'']"

text \<open>Two worlds: one where every command succeeds, one where every command fails.\<close>

definition all_succeed :: "string list \<Rightarrow> nat" where
  "all_succeed argv = 0"

definition all_fail :: "string list \<Rightarrow> nat" where
  "all_fail argv = 1"

section \<open>The tutorial notebooks\<close>

text \<open>
  A notebook is a JSON document (nbformat 4): a list of cells. A markdown cell holds prose;
  it is kept by the number of lines of its source. A code cell holds its execution count
  (\<open>None\<close> is JSON's null: the cell was saved without being run), the outputs recorded
  when it was run, and its source, one string for each line, without the line terminator.
  An output is a stream (its name and the lines written), an error (the name and the value
  of the exception; the coloured traceback is left out) or the value of the cell's last
  expression (the execution count and the lines of its text/plain form). The metadata of
  the cells and of the notebooks (display options, the kernel's name and version) is left
  out.
\<close>

datatype cell_output =
    Stream string "string list"
  | Error string string
  | Execute_result nat "string list"

datatype cell =
    Markdown nat
  | Code "nat option" "cell_output list" "string list"

text \<open>tutorials/introductory/Submitting-and-Managing-Jobs.ipynb\<close>

definition submitting_and_managing_jobs :: "cell list" where
  \<open>submitting_and_managing_jobs =
    [Markdown 5,
     Code None
        []
        [''import htcondor''],
     Markdown 8,
     Code None
        []
        [''sub = htcondor.Submit({"foo": "1", "bar": "2", "baz": "$(foo)"})'',
         ''sub.setdefault("qux", "3")'',
         ''print("=== START ==='' @ [CHR 0x5C] @ ''n{}'' @ [CHR 0x5C] @ ''n=== END ===".format(sub))'',
         ''print(sub.expand("baz"))''],
     Markdown 1,
     Code None
        []
        [''sub = htcondor.Submit({"executable": "/bin/sleep", "arguments": "5m"})''],
     Markdown 7,
     Code None
        []
        [''schedd = htcondor.Schedd()         # Create a schedd object using default settings.'',
         ''with schedd.transaction() as txn:  # txn will now represent the transaction.'',
         ''   print(sub.queue(txn))            # Queues one job in the current transaction; returns job's cluster ID''],
     Markdown 1,
     Markdown 24,
     Code None
        []
        [''with schedd.transaction() as txn:'',
         ''    clusterId = sub.queue(txn, 5)  # Queues 5 copies of this job.'',
         ''    schedd.edit(["%d.0" % clusterId, "%d.1" % clusterId], "foo", '"bar"') # Sets attribute foo to the string "bar".'',
         ''print("=== START JOB STATUS ===")'',
         ''for job in schedd.xquery(requirements="ClusterId == %d" % clusterId, projection=["ProcId", "foo", "JobStatus"]):'',
         ''    print("%d: foo=%s, job_status = %d" % (job.get("ProcId"), job.get("foo", "default_string"), job["JobStatus"]))'',
         ''print("=== END ===")'',
         '''',
         ''schedd.act(htcondor.JobAction.Hold, 'ClusterId==%d && ProcId >= 2' % clusterId)'',
         ''print("=== START JOB STATUS ===")'',
         ''for job in schedd.xquery(requirements="ClusterId == %d" % clusterId, projection=["ProcId", "foo", "JobStatus"]):'',
         ''    print("%d: foo=%s, job_status = %d" % (job.get("ProcId"), job.get("foo", "default_string"), job["JobStatus"]))'',
         ''print("=== END ===")''],
     Markdown 7]\<close>

text \<open>tutorials/advanced/Interacting-With-Daemons.ipynb\<close>

definition interacting_with_daemons :: "cell list" where
  \<open>interacting_with_daemons =
    [Markdown 6,
     Code (Some 1)
        []
        [''import htcondor''],
     Markdown 8,
     Code (Some 3)
        [Stream ''stdout''
           [''/home/jovyan/.condor/state/log/SchedLog'',
            ''None'',
            ''/tmp/log'',
            ''/tmp/log'']]
        [''print(htcondor.param['SCHEDD_LOG'])   # Prints the schedd's current log file.'',
         ''print(htcondor.param.get('TOOL_LOG')) # Print None as TOOL_LOG isn't set by default.'',
         ''print(htcondor.param.setdefault('TOOL_LOG', '/tmp/log')) # Sets TOOL_LOG to /tmp/log.'',
         ''print(htcondor.param['TOOL_LOG'])     # Prints /tmp/log, as set above.''],
     Markdown 1,
     Code (Some 5)
        [Stream ''stdout''
           [''/tmp/log'',
            ''None'']]
        [''print(htcondor.param.get("TOOL_LOG"))'',
         ''htcondor.reload_config()'',
         ''print(htcondor.param.get("TOOL_LOG"))''],
     Markdown 1,
     Code (Some 7)
        [Stream ''stdout''
           [''bar'',
            ''baz'',
            ''bar'',
            ''baz'']]
        [''print(htcondor.param.setdefault("TEST_FOO", "bar"))         # Sets the default value of TEST_FOO to bar'',
         ''print(htcondor.param.setdefault("SCHEDD.TEST_FOO", "baz"))  # The schedd has a special setting for TEST_FOO'',
         ''print(htcondor.param['TEST_FOO'])        # Default access; should be 'bar'' @ [CHR 0x27],
         ''htcondor.set_subsystem('SCHEDD')  # Changes the running process to identify as a schedd.'',
         ''print(htcondor.param['TEST_FOO'])        # Since we now identify as a schedd, should use the special setting of 'baz'' @ [CHR 0x27]],
     Markdown 5,
     Code (Some 9)
        [Stream ''stdout''
           [''<172.17.0.2:9618?addrs=172.17.0.2-9618&noUDP&sock=9_10d8>'']]
        [''master_ad = htcondor.Collector().locate(htcondor.DaemonTypes.Master)'',
         ''print(master_ad['MyAddress'])'',
         ''master_param = htcondor.RemoteParam(master_ad)''],
     Markdown 3,
     Code (Some 14)
        [Stream ''stdout''
           [[CHR 0x27] @ ''5'' @ [CHR 0x27],
            ''5'']]
        [''print(repr(master_param['UPDATE_INTERVAL']))      # Returns a string'',
         ''print(repr(htcondor.param['UPDATE_INTERVAL']))    # Returns an integer''],
     Markdown 1,
     Code (Some 15)
        [Error ''RuntimeError'' ''Failed to set remote daemon parameter.'']
        [''master_param['UPDATE_INTERVAL'] = '500'' @ [CHR 0x27]],
     Markdown 5,
     Code (Some 17)
        [Stream ''stdout''
           [''04/17/19 19:21:33 Result of reading /etc/issue:  Ubuntu 18.04.1 LTS '' @ [CHR 0x5C] @ ''n '' @ [CHR 0x5C] @ ''l'',
            '' '',
            ''04/17/19 19:21:33 Using IDs: 2 processors, 2 CPUs, 0 HTs'',
            ''04/17/19 19:21:33 Reading condor configuration from '/etc/condor/condor_config'' @ [CHR 0x27],
            ''04/17/19 19:21:33 Enumerating interfaces: lo 127.0.0.1 up'',
            ''04/17/19 19:21:33 Enumerating interfaces: eth0 172.17.0.2 up'',
            '''']]
        [''htcondor.set_subsystem("TOOL")'',
         ''htcondor.param['TOOL_DEBUG'] = 'D_FULLDEBUG'' @ [CHR 0x27],
         ''htcondor.param['TOOL_LOG'] = '/tmp/log'' @ [CHR 0x27],
         ''htcondor.enable_log()    # Send logs to the log file (/tmp/foo)'',
         ''htcondor.enable_debug()  # Send logs to stderr; this is ignored by the web notebook.'',
         ''print(open("/tmp/log").read())  # Print the log's contents.''],
     Markdown 7,
     Code (Some 19)
        [Stream ''stdout''
           [''<172.17.0.2:9618?addrs=172.17.0.2-9618&noUDP&sock=9_10d8>'',
            ''['04/17/19 19:22:34 Sent SIGHUP to NEGOTIATOR (pid 194)'' @ [CHR 0x5C] @ ''n', '04/17/19 19:22:34 Sent SIGHUP to SCHEDD (pid 221)'' @ [CHR 0x5C] @ ''n', '04/17/19 19:22:34 Sent SIGHUP to SHARED_PORT (pid 42)'' @ [CHR 0x5C] @ ''n', '04/17/19 19:22:34 Sent SIGHUP to STARTD (pid 249)'' @ [CHR 0x5C] @ ''n']'']]
        [''print(master_ad['MyAddress'])'',
         ''htcondor.send_command(master_ad, htcondor.DaemonCommands.Reconfig)'',
         ''import time'',
         ''time.sleep(1)'',
         ''log_lines = open(htcondor.param['MASTER_LOG']).readlines()'',
         ''print(log_lines[-4:])''],
     Markdown 1,
     Code (Some 21)
        [Stream ''stdout''
           [''04/17/19 19:22:40 Sent SIGTERM to SCHEDD (pid 221)'',
            '''']]
        [''htcondor.send_command(master_ad, htcondor.DaemonCommands.DaemonOff, "SCHEDD")'',
         ''time.sleep(1)'',
         ''log_lines = open(htcondor.param['MASTER_LOG']).readlines()'',
         ''print(log_lines[-1])''],
     Markdown 1,
     Code (Some 22)
        [Stream ''stdout''
           [''04/17/19 19:22:45 **** condor_master (condor_MASTER) pid 9 EXITING WITH STATUS 0'',
            '''']]
        [''htcondor.send_command(master_ad, htcondor.DaemonCommands.OffFast)'',
         ''time.sleep(1)'',
         ''log_lines = open(htcondor.param['MASTER_LOG']).readlines()'',
         ''print(log_lines[-1])''],
     Markdown 1,
     Code (Some 23)
        [Execute_result 23 [''0'']]
        [''import os'',
         ''os.system("condor_master")'']]\<close>

section \<open>The repository\<close>

datatype repo_file = Shell_script "line list" | Notebook "cell list"

definition repository :: "(string \<times> repo_file) list" where
  "repository =
    [(''docker/local.sh'', Shell_script local_sh),
     (''tutorials/advanced/Interacting-With-Daemons.ipynb'', Notebook interacting_with_daemons),
     (''tutorials/introductory/Submitting-and-Managing-Jobs.ipynb'',
        Notebook submitting_and_managing_jobs)]"

fun is_notebook :: "repo_file \<Rightarrow> bool" where
  "is_notebook (Notebook cs) = True"
| "is_notebook (Shell_script ls) = False"

fun notebook_cells :: "repo_file \<Rightarrow> cell list" where
  "notebook_cells (Notebook cs) = cs"
| "notebook_cells (Shell_script ls) = []"

fun script_lines :: "repo_file \<Rightarrow> line list" where
  "script_lines (Shell_script ls) = ls"
| "script_lines (Notebook cs) = []"

fun is_code :: "cell \<Rightarrow> bool" where
  "is_code (Code n outs src) = True"
| "is_code (Markdown n) = False"

fun cell_source :: "cell \<Rightarrow> string list" where
  "cell_source (Code n outs src) = src"
| "cell_source (Markdown n) = []"

fun cell_outputs :: "cell \<Rightarrow> cell_output list" where
  "cell_outputs (Code n outs src) = outs"
| "cell_outputs (Markdown n) = []"

fun is_error :: "cell_output \<Rightarrow> bool" where
  "is_error (Error name val) = True"
| "is_error (Stream name body) = False"
| "is_error (Execute_result n body) = False"

definition has_error :: "cell \<Rightarrow> bool" where
  "has_error c = list_ex is_error (cell_outputs c)"

text \<open>The code cells of a file, and of the whole repository, in order.\<close>

definition code_cells_of :: "repo_file \<Rightarrow> cell list" where
  "code_cells_of f = filter is_code (notebook_cells f)"

definition code_cells :: "cell list" where
  "code_cells = concat (map (\<lambda>(path, f). code_cells_of f) repository)"

definition code_lines :: "string list" where
  "code_lines = concat (map cell_source code_cells)"

section \<open>Reading the source of the code cells\<close>

text \<open>
  The statements below are about the text of the code cells: which names a line uses, and
  what stands in front of them.
\<close>

text \<open>
  A line of Python without its comment: the text up to the first \<^verbatim>\<open>#\<close> outside a string
  literal. The first argument is the quote character of the literal being read, if any.
\<close>

fun strip_comment :: "char option \<Rightarrow> string \<Rightarrow> string" where
  "strip_comment q [] = []"
| "strip_comment None (c # cs) =
    (if c = CHR ''#'' then []
     else c # strip_comment (if c = CHR 0x22 \<or> c = CHR 0x27 then Some c else None) cs)"
| "strip_comment (Some q) (c # cs) = c # strip_comment (if c = q then None else Some q) cs"

definition is_ident_char :: "char \<Rightarrow> bool" where
  "is_ident_char c =
    List.member ''abcdefghijklmnopqrstuvwxyzABCDEFGHIJKLMNOPQRSTUVWXYZ0123456789_'' c"

text \<open>
  Every place where \<open>x\<close> occurs in a line: the text in front of it, reversed, and the
  text behind it.
\<close>

fun occurrences :: "string \<Rightarrow> string \<Rightarrow> string \<Rightarrow> (string \<times> string) list" where
  "occurrences x pre [] = []"
| "occurrences x pre (c # cs) =
    (if starts_with x (c # cs) then [(pre, drop (length x) (c # cs))] else [])
    @ occurrences x (c # pre) cs"

fun at_boundary :: "string \<Rightarrow> bool" where
  "at_boundary [] = True"
| "at_boundary (c # cs) = (\<not> is_ident_char c)"

definition whole_word :: "string \<times> string \<Rightarrow> bool" where
  "whole_word occ = (at_boundary (fst occ) \<and> at_boundary (snd occ))"

text \<open>
  The receiver of an occurrence: the dotted name that stands directly in front of it, its
  last dot included (\<^verbatim>\<open>schedd.\<close> in \<^verbatim>\<open>schedd.edit(...)\<close>), empty when the name is not
  an attribute of another name.
\<close>

definition receiver :: "string \<times> string \<Rightarrow> string" where
  "receiver occ = rev (takeWhile (\<lambda>c. is_ident_char c \<or> c = CHR ''.'') (fst occ))"

definition receivers :: "string \<Rightarrow> string \<Rightarrow> string list" where
  "receivers x ln =
    map receiver (filter whole_word (occurrences x [] (strip_comment None ln)))"


text \<open>
  The assignments \<^verbatim>\<open>x = ...\<close> of the code cells, each by the dotted name its right-hand
  side starts with.
\<close>

definition binding :: "string \<Rightarrow> string \<Rightarrow> string list" where
  "binding x ln =
    (if starts_with (x @ '' = '') ln
     then [takeWhile (\<lambda>c. is_ident_char c \<or> c = CHR ''.'') (drop (length x + 3) ln)]
     else [])"

definition bindings :: "string \<Rightarrow> string list" where
  "bindings x = concat (map (binding x) code_lines)"

text \<open>
  The names through which the cells reach the library: the module, and the variables
  bound above to objects it returns.
\<close>

definition library_names :: "string list" where
  "library_names = [''htcondor'', ''sub'', ''schedd'', ''master_ad'', ''master_param'']"

definition names_library :: "string \<Rightarrow> bool" where
  "names_library ln = list_ex (\<lambda>x. receivers x ln \<noteq> []) library_names"

definition calls_library :: "cell \<Rightarrow> bool" where
  "calls_library c = list_ex names_library (cell_source c)"

definition line_count :: "cell \<Rightarrow> nat" where
  "line_count c = length (cell_source c)"

definition one_or_two_lines :: "cell \<Rightarrow> bool" where
  "one_or_two_lines c = (line_count c = 1 \<or> line_count c = 2)"

definition short_library_call :: "cell \<Rightarrow> bool" where
  "short_library_call c = (one_or_two_lines c \<and> calls_library c)"

definition no_error :: "cell \<Rightarrow> bool" where
  "no_error c = (\<not> has_error c)"



fun is_exec :: "line \<Rightarrow> bool" where
  "is_exec (Stmt (Exec ws)) = True"
| "is_exec (Stmt Set_errexit) = False"
| "is_exec (Stmt (Assign x w)) = False"
| "is_exec (Comment body) = False"
| "is_exec Blank = False"

section \<open>The expressions of the code cells\<close>

text \<open>
  A line of Python is read into its chains: a chain is a dotted name together with the
  calls and subscripts applied to it, as in \<^verbatim>\<open>htcondor.Collector().locate()\<close>. What stands
  between the brackets is left out of the chain and read into chains of its own; a string
  literal is kept as its two quotes; a comment ends the line. The scanner carries the quote
  of the literal it is in, the chain it is building, and the chains that wait for their
  closing bracket.
\<close>

definition is_name_start :: "char \<Rightarrow> bool" where
  "is_name_start c =
    List.member ''abcdefghijklmnopqrstuvwxyzABCDEFGHIJKLMNOPQRSTUVWXYZ_'' c"

definition emit :: "string \<Rightarrow> string list" where
  "emit ch = (if list_ex is_name_start ch then [ch] else [])"

fun scan :: "char option \<Rightarrow> string \<Rightarrow> string list \<Rightarrow> string \<Rightarrow> string list" where
  "scan q cur stack [] = emit cur @ concat (map emit stack)"
| "scan (Some q) cur stack (c # cs) =
    (if c = q then scan None (cur @ [c]) stack cs else scan (Some q) cur stack cs)"
| "scan None cur stack (c # cs) =
    (if c = CHR ''#'' then emit cur @ concat (map emit stack)
     else if c = CHR 0x22 \<or> c = CHR 0x27 then scan (Some c) (cur @ [c]) stack cs
     else if c = CHR ''('' \<or> c = CHR ''['' then scan None [] ((cur @ [c]) # stack) cs
     else if c = CHR '')'' \<or> c = CHR '']'' then
       (case stack of
          [] \<Rightarrow> emit cur @ scan None [] [] cs
        | outer # rest \<Rightarrow> emit cur @ scan None (outer @ [c]) rest cs)
     else if is_ident_char c \<or> c = CHR ''.'' then scan None (cur @ [c]) stack cs
     else emit cur @ scan None [] stack cs)"

definition chains :: "string \<Rightarrow> string list" where
  "chains ln = scan None [] [] ln"














section \<open>The launcher script: properties\<close>

text \<open>General facts about the fragment of bash, for any script.\<close>

lemma split_fields_literal:
  "split_fields (map (\<lambda>c. (c, False)) s) cur = (if cur @ s = [] then [] else [cur @ s])"
  by (induction s arbitrary: cur) simp_all

lemma run_lines_exited:
  assumes "exited st"
  shows "run_lines sys ls st = st"
proof (cases ls)
  case Nil
  then show ?thesis by simp
next
  case (Cons l rest)
  then show ?thesis using assms by (cases l) simp_all
qed

lemma assignment_shadows_environment:
  "map_of (vars (exec_command sys (Assign x w) st)) x = Some (map fst (expand_word st w))"
  by simp

lemma exec_command_actions_grow:
  "\<exists>more. actions (exec_command sys c st) = actions st @ more"
  by (cases c) (simp_all split: list.split)

lemma run_lines_actions_grow:
  "\<exists>more. actions (run_lines sys ls st) = actions st @ more"
proof (induction ls arbitrary: st)
  case Nil
  show ?case by simp
next
  case (Cons l ls)
  show ?case
  proof (cases l)
    case (Stmt c)
    obtain m1 where m1: "actions (exec_command sys c st) = actions st @ m1"
      using exec_command_actions_grow by blast
    obtain m2 where
      m2: "actions (run_lines sys ls (exec_command sys c st)) =
           actions (exec_command sys c st) @ m2"
      using Cons.IH by blast
    show ?thesis using Stmt m1 m2 by simp
  qed (use Cons.IH in simp_all)
qed

text \<open>
  C1 (as amended). In every environment that leaves the start of bash alone (none of
  \<^verbatim>\<open>SHELLOPTS\<close>, \<^verbatim>\<open>BASHOPTS\<close>, \<^verbatim>\<open>BASH_ENV\<close> and no exported function), and for every
  argument list, the script executes
  \<^verbatim>\<open>docker build -t htcondor-python-bindings-tutorials --file docker/Dockerfile .\<close> first,
  and then, if and only if that build returned status zero (the script sets \<^verbatim>\<open>-e\<close>),
  \<^verbatim>\<open>docker run -it --rm -p 8888:8888 htcondor-python-bindings-tutorials jupyter lab\<close>;
  it executes nothing else. Neither the arguments nor the variables of the environment
  change the commands: the script reads no positional parameter, and the one variable it
  expands is assigned in the script itself.
\<close>

theorem local_sh_actions:
  assumes "default_startup env"
  shows "map_option actions (run_script sys args env local_sh) =
     Some (if sys docker_build = 0 then [docker_build, docker_run] else [docker_build])"
  using assms
  by (simp add: run_script_def local_sh_def docker_build_def docker_run_def
        expand_words_def expand_word_def is_ifs_def)

text \<open>
  An invocation with arguments, and with \<^verbatim>\<open>CONTAINER_TAG\<close> set in the environment, in a
  world where the build succeeds: both commands run, with the tag and the port of the
  script.
\<close>

theorem local_sh_actions_witness:
  "default_startup [(''CONTAINER_TAG'', ''other'')] \<and>
   map_option actions
     (run_script all_succeed [''--port'', ''9999''] [(''CONTAINER_TAG'', ''other'')] local_sh) =
     Some [docker_build, docker_run]"
proof -
  have d: "default_startup [(''CONTAINER_TAG'', ''other'')]"
    by (simp add: default_startup_def configures_shell_def startup_names_def)
  show ?thesis
    using d local_sh_actions
      [OF d, of all_succeed "[''--port'', ''9999'']"]
    by (simp add: all_succeed_def)
qed

text \<open>
  C1 as stated (exactly two actions, the build and then the run) fails where the build
  fails: the shell exits after the first command and no container is run.
\<close>

theorem local_sh_build_fails:
  "map_option actions (run_script all_fail [] [] local_sh) = Some [docker_build] \<and>
   map_option actions (run_script all_fail [] [] local_sh) \<noteq> Some [docker_build, docker_run]"
  by (simp add: run_script_def default_startup_def local_sh_def docker_build_def
        docker_run_def expand_words_def expand_word_def is_ifs_def all_fail_def)

text \<open>An environment the model does not cover.\<close>

lemma run_script_noexec: "run_script sys args [(''SHELLOPTS'', ''noexec'')] script = None"
  by (simp add: run_script_def default_startup_def configures_shell_def startup_names_def)

section \<open>The repository: properties\<close>

text \<open>
  C8 (as amended). The repository holds exactly two notebooks and one shell script. The
  script has eight lines; two of them are commands, and where both succeed they build
  the image and run the container that hosts the notebook server.
\<close>

theorem repository_contents:
  "map fst (filter (\<lambda>(path, f). is_notebook f) repository) =
     [''tutorials/advanced/Interacting-With-Daemons.ipynb'',
      ''tutorials/introductory/Submitting-and-Managing-Jobs.ipynb''] \<and>
   filter (\<lambda>(path, f). \<not> is_notebook f) repository =
     [(''docker/local.sh'', Shell_script local_sh)] \<and>
   length local_sh = 8 \<and>
   length (filter is_exec local_sh) = 2 \<and>
   map_option actions (run_script all_succeed [] [] local_sh) =
     Some [docker_build, docker_run]"
  by code_simp

text \<open>C8 as stated calls the script two lines long; it has eight.\<close>

theorem script_length_counterexample:
  "length (script_lines (Shell_script local_sh)) = 8 \<and>
   length (script_lines (Shell_script local_sh)) \<noteq> 2"
  by code_simp

section \<open>The notebooks: properties\<close>

text \<open>
  The functions that read the source do what their names say: \<open>starts_with\<close> finds a
  prefix, and every occurrence that \<open>occurrences\<close> reports splits the line into the text
  in front of \<open>x\<close>, \<open>x\<close> itself and the text behind.
\<close>

lemma starts_with_iff: "starts_with p s \<longleftrightarrow> (\<exists>t. s = p @ t)"
  by (induction p s rule: starts_with.induct) auto

lemma occurrences_sound:
  "(u, v) \<in> set (occurrences x pre s) \<Longrightarrow> rev pre @ s = rev u @ x @ v"
proof (induction s arbitrary: pre)
  case Nil
  then show ?case by simp
next
  case (Cons c cs)
  show ?case
  proof (cases "(u, v) \<in> set (occurrences x (c # pre) cs)")
    case True
    then show ?thesis using Cons.IH [of "c # pre"] by simp
  next
    case False
    then have sw: "starts_with x (c # cs)" and u: "u = pre" and v: "v = drop (length x) (c # cs)"
      using Cons.prems by (auto split: if_splits)
    from sw obtain t where t: "c # cs = x @ t" using starts_with_iff by blast
    then have "v = t" using v by simp
    then show ?thesis using u t by simp
  qed
qed

text \<open>
  C3 (as amended). The seventeen code cells have between one and thirteen lines of
  source (twelve cells of Interacting-With-Daemons, then five of
  Submitting-and-Managing-Jobs), and every one of them but the last cell of
  Interacting-With-Daemons, which restarts HTCondor through \<^verbatim>\<open>os.system\<close>, names the
  htcondor module or one of the variables \<^verbatim>\<open>sub\<close>, \<^verbatim>\<open>schedd\<close>, \<^verbatim>\<open>master_ad\<close> and
  \<^verbatim>\<open>master_param\<close>, each of which is only ever assigned an object the module returns.
\<close>

theorem code_cells_size_and_library:
  "map line_count code_cells = [1, 4, 3, 5, 3, 2, 1, 6, 6, 4, 4, 2, 1, 4, 1, 3, 13] \<and>
   filter (\<lambda>c. \<not> calls_library c) code_cells = [interacting_with_daemons ! 23] \<and>
   map bindings (tl library_names) =
     [[''htcondor.Submit'', ''htcondor.Submit''], [''htcondor.Schedd''],
      [''htcondor.Collector''], [''htcondor.RemoteParam'']]"
  by code_simp

text \<open>
  C3 as stated (every code cell is a call of one or two lines into the library) fails at
  the job management cell of Submitting-and-Managing-Jobs, thirteen lines long, and at
  the last cell of Interacting-With-Daemons, which does not name the library.
\<close>

theorem long_cell_counterexample:
  "is_code (submitting_and_managing_jobs ! 10) \<and>
   line_count (submitting_and_managing_jobs ! 10) = 13 \<and>
   \<not> short_library_call (submitting_and_managing_jobs ! 10) \<and>
   is_code (interacting_with_daemons ! 23) \<and>
   \<not> calls_library (interacting_with_daemons ! 23) \<and>
   \<not> list_all short_library_call code_cells"
  by code_simp

text \<open>
  C4 (as amended). Exactly one code cell of the two notebooks records an error output:
  the fourteenth cell of Interacting-With-Daemons, the assignment to
  \<^verbatim>\<open>master_param['UPDATE_INTERVAL']\<close>, whose only output is the error \<^verbatim>\<open>RuntimeError\<close>
  with the value \<^verbatim>\<open>Failed to set remote daemon parameter.\<close>
\<close>

theorem recorded_errors:
  "filter has_error code_cells = [interacting_with_daemons ! 13] \<and>
   interacting_with_daemons ! 13 =
     Code (Some 15) [Error ''RuntimeError'' ''Failed to set remote daemon parameter.'']
       [''master_param['UPDATE_INTERVAL'] = '500'' @ [CHR 0x27]]"
  by code_simp

text \<open>
  C4 as stated (no code cell records an error output) fails at that cell.
\<close>

theorem error_cell_counterexample:
  "is_code (interacting_with_daemons ! 13) \<and> has_error (interacting_with_daemons ! 13) \<and>
   \<not> list_all no_error code_cells"
  by code_simp

text \<open>An example of the scanner, on the line that locates the master daemon.\<close>

lemma chains_example:
  "chains ''master_ad = htcondor.Collector().locate(htcondor.DaemonTypes.Master)'' =
     [''master_ad'', ''htcondor.DaemonTypes.Master'', ''htcondor.Collector().locate()'']"
  by code_simp



end
